theory Spec2Isabelle
  imports Main "HOL-Library.Word" "HOL-Library.AList"
begin

section \<open>The chat client of \<^verbatim>\<open>ChatInterface.js\<close>\<close>

text \<open>
  The component \<^verbatim>\<open>ChatInterface\<close> keeps six pieces of React state
  (\<^verbatim>\<open>messages\<close>, \<^verbatim>\<open>inputMessage\<close>, \<^verbatim>\<open>isConnected\<close>, \<^verbatim>\<open>isLoading\<close>,
  \<^verbatim>\<open>quickQueries\<close>, \<^verbatim>\<open>sessionId\<close>) and has two effects on the outside:
  \<^verbatim>\<open>socketRef.current.emit\<close> and the console. Every handler is embedded as a
  function from the state before the handler to the state after it; the effects
  are two more fields of the state, which record the calls in order.
  \<^verbatim>\<open>Date.now()\<close> and \<^verbatim>\<open>new Date()\<close> read the clock of the browser: their
  results are arguments of the handlers that call them.
\<close>

subsection \<open>Strings\<close>

text \<open>
  A JavaScript string is a sequence of 16-bit code units. The string literals
  of the source are ASCII, so each of their characters is one code unit.
\<close>

type_synonym js_string = "16 word list"

definition lit :: "string \<Rightarrow> js_string" where
  "lit cs = map of_char cs"

text \<open>
  \<^verbatim>\<open>String.prototype.trim\<close> removes the code units of WhiteSpace and
  LineTerminator from both ends: TAB, LF, VT, FF, CR, SP, NBSP, U+1680,
  U+2000 to U+200A, U+2028, U+2029, U+202F, U+205F, U+3000 and U+FEFF.
\<close>

definition isWhiteSpace :: "16 word \<Rightarrow> bool" where
  "isWhiteSpace u \<longleftrightarrow>
     u \<in> set [0x0009, 0x000A, 0x000B, 0x000C, 0x000D, 0x0020, 0x00A0, 0x1680,
              0x2000, 0x2001, 0x2002, 0x2003, 0x2004, 0x2005, 0x2006, 0x2007,
              0x2008, 0x2009, 0x200A, 0x2028, 0x2029, 0x202F, 0x205F, 0x3000,
              0xFEFF]"

definition trim :: "js_string \<Rightarrow> js_string" where
  "trim s = rev (dropWhile isWhiteSpace (rev (dropWhile isWhiteSpace s)))"

text \<open>The decimal digits of a number, as a template literal prints an integer.\<close>

fun digits :: "nat \<Rightarrow> js_string" where
  "digits n = (if n < 10 then [of_nat (48 + n)]
               else digits (n div 10) @ [of_nat (48 + n mod 10)])"

declare digits.simps [simp del]

definition number_to_string :: "int \<Rightarrow> js_string" where
  "number_to_string i = (if i < 0 then lit ''-'' @ digits (nat (- i)) else digits (nat i))"

subsection \<open>Data\<close>

datatype message_type = User | Assistant | Error

text \<open>
  A message's \<^verbatim>\<open>timestamp\<close> is a \<^verbatim>\<open>Date\<close> object, built either from the
  string of a payload (\<^verbatim>\<open>new Date(data.timestamp)\<close>) or from the clock
  (\<^verbatim>\<open>new Date()\<close>).
\<close>

datatype js_date = DateOfString js_string | DateOfClock int

record analysis_metadata =
  metrics :: "int option"
  logs :: "int option"
  traces :: "int option"

text \<open>
  The fields \<^verbatim>\<open>id\<close> and \<^verbatim>\<open>type\<close> of a message are \<open>msg_id\<close> and \<open>msg_type\<close>
  here. A field the object literal leaves out, or sets to \<^verbatim>\<open>undefined\<close>, is
  \<open>None\<close>.
\<close>

record message =
  msg_id :: int
  msg_type :: message_type
  content :: js_string
  timestamp :: js_date
  metadata :: "analysis_metadata option"
  suggestions :: "js_string list option"

text \<open>The payloads of the inbound events \<^verbatim>\<open>response\<close> and \<^verbatim>\<open>error\<close>.\<close>

record response_data =
  resp_response :: js_string
  resp_timestamp :: js_string
  resp_metadata :: "analysis_metadata option"
  resp_suggestions :: "js_string list option"

record error_data =
  err_error :: js_string
  err_timestamp :: js_string

text \<open>The payload of the outbound event \<^verbatim>\<open>message\<close>.\<close>

record outbound =
  message :: js_string
  session_id :: js_string
  include_metrics :: bool
  include_logs :: bool
  include_traces :: bool
  time_range :: js_string

record quick_query =
  query :: js_string
  category :: js_string
  description :: js_string

text \<open>
  \<^verbatim>\<open>axios.get\<close> rejects when the request fails or when the status is outside
  2xx; otherwise \<^verbatim>\<open>response.data\<close> is the parsed body.
\<close>

datatype fetch_error = NetworkError | BadStatus nat

datatype console_line = ConsoleLog js_string | ConsoleError js_string fetch_error

record client =
  messages :: "message list"
  inputMessage :: js_string
  isConnected :: bool
  isLoading :: bool
  quickQueries :: "quick_query list"
  sessionId :: js_string
  emitted :: "outbound list"
  console :: "console_line list"

subsection \<open>Start of the component\<close>

text \<open>
  \<^verbatim>\<open>useState(() => `session_${Date.now()}`)\<close> runs its initialiser once, at the
  first render; the component has no setter for \<^verbatim>\<open>sessionId\<close>.
\<close>

definition createSessionId :: "int \<Rightarrow> js_string" where
  "createSessionId now = lit ''session_'' @ number_to_string now"

definition initial :: "int \<Rightarrow> client" where
  "initial now =
     \<lparr>messages = [], inputMessage = [], isConnected = False, isLoading = False,
      quickQueries = [], sessionId = createSessionId now, emitted = [], console = []\<rparr>"

subsection \<open>Socket handlers\<close>

definition on_connect :: "client \<Rightarrow> client" where
  "on_connect s =
     s\<lparr>isConnected := True,
       console := console s @ [ConsoleLog (lit ''Connected to chat server'')]\<rparr>"

definition on_disconnect :: "client \<Rightarrow> client" where
  "on_disconnect s =
     s\<lparr>isConnected := False,
       console := console s @ [ConsoleLog (lit ''Disconnected from chat server'')]\<rparr>"

definition on_response :: "int \<Rightarrow> response_data \<Rightarrow> client \<Rightarrow> client" where
  "on_response now data s =
     s\<lparr>isLoading := False,
       messages := messages s @
         [\<lparr>msg_id = now, msg_type = Assistant, content = resp_response data,
           timestamp = DateOfString (resp_timestamp data),
           metadata = resp_metadata data, suggestions = resp_suggestions data\<rparr>]\<rparr>"

definition on_error :: "int \<Rightarrow> error_data \<Rightarrow> client \<Rightarrow> client" where
  "on_error now data s =
     s\<lparr>isLoading := False,
       messages := messages s @
         [\<lparr>msg_id = now, msg_type = Error, content = lit ''Error: '' @ err_error data,
           timestamp = DateOfString (err_timestamp data),
           metadata = None, suggestions = None\<rparr>]\<rparr>"

subsection \<open>Loading the quick queries\<close>

text \<open>
  \<^verbatim>\<open>loadQuickQueries\<close> awaits \<^verbatim>\<open>axios.get\<close> inside \<^verbatim>\<open>try\<close>; the argument is
  what the promise settles to. \<open>Inl\<close> in the result of a block is an exception
  leaving it. The \<^verbatim>\<open>catch\<close> clause takes every exception of the \<^verbatim>\<open>try\<close> block
  and writes it to the console.
\<close>

definition loadQuickQueries_try :: "fetch_error + quick_query list \<Rightarrow> client \<Rightarrow> fetch_error + client" where
  "loadQuickQueries_try settled s =
     (case settled of
        Inl rejection \<Rightarrow> Inl rejection
      | Inr data \<Rightarrow> Inr (s\<lparr>quickQueries := data\<rparr>))"

definition loadQuickQueries :: "fetch_error + quick_query list \<Rightarrow> client \<Rightarrow> fetch_error + client" where
  "loadQuickQueries settled s =
     (case loadQuickQueries_try settled s of
        Inl error \<Rightarrow>
          Inr (s\<lparr>console := console s @
                   [ConsoleError (lit ''Failed to load quick queries:'') error]\<rparr>)
      | Inr s' \<Rightarrow> Inr s')"

subsection \<open>Sending\<close>

text \<open>
  \<^verbatim>\<open>sendMessage(message = inputMessage)\<close>: a call without argument (\<open>None\<close>) takes
  the text of the input field. \<^verbatim>\<open>!message.trim()\<close> holds exactly when the
  trimmed string is empty. \<open>now\<close> is the result of \<^verbatim>\<open>Date.now()\<close> and \<open>created\<close>
  the time of \<^verbatim>\<open>new Date()\<close>. The parameter \<^verbatim>\<open>message\<close> is \<open>text\<close> here, since
  \<open>message\<close> is a field of the payload. \<^verbatim>\<open>isConnected\<close> and \<^verbatim>\<open>inputMessage\<close>
  are the values of the render in which the handler was made, which is the
  state the handler starts from.
\<close>

definition message_argument :: "js_string option \<Rightarrow> client \<Rightarrow> js_string" where
  "message_argument arg s = (case arg of None \<Rightarrow> inputMessage s | Some m \<Rightarrow> m)"

definition sendMessage :: "int \<Rightarrow> int \<Rightarrow> js_string option \<Rightarrow> client \<Rightarrow> client" where
  "sendMessage now created arg s =
     (let text = message_argument arg s in
      if trim text = [] \<or> \<not> isConnected s then s
      else
        let userMessage =
              \<lparr>msg_id = now, msg_type = User, content = text,
               timestamp = DateOfClock created, metadata = None, suggestions = None\<rparr>
        in s\<lparr>messages := messages s @ [userMessage],
             isLoading := True,
             emitted := emitted s @
               [\<lparr>message = text, session_id = sessionId s, include_metrics = True,
                 include_logs = True, include_traces = True, time_range = lit ''1h''\<rparr>],
             inputMessage := []\<rparr>)"

definition handleKeyPress :: "int \<Rightarrow> int \<Rightarrow> js_string \<Rightarrow> bool \<Rightarrow> client \<Rightarrow> client" where
  "handleKeyPress now created key shiftKey s =
     (if key = lit ''Enter'' \<and> \<not> shiftKey then sendMessage now created None s else s)"

definition handleQuickQuery :: "int \<Rightarrow> int \<Rightarrow> js_string \<Rightarrow> client \<Rightarrow> client" where
  "handleQuickQuery now created q s = sendMessage now created (Some q) s"

subsection \<open>The component as a transition system\<close>

text \<open>
  The text field is rendered with \<^verbatim>\<open>disabled={!isConnected || isLoading}\<close> and
  the send button with
  \<^verbatim>\<open>disabled={!inputMessage.trim() || !isConnected || isLoading}\<close>; a disabled
  element delivers no event. The cards of the quick-query panel and the
  suggestion chips are never disabled; both call \<^verbatim>\<open>handleQuickQuery\<close>. A click
  may carry any text here, which includes the texts the panel and the chips
  offer.
\<close>

definition input_disabled :: "client \<Rightarrow> bool" where
  "input_disabled s \<longleftrightarrow> \<not> isConnected s \<or> isLoading s"

definition send_disabled :: "client \<Rightarrow> bool" where
  "send_disabled s \<longleftrightarrow> trim (inputMessage s) = [] \<or> \<not> isConnected s \<or> isLoading s"

datatype event =
    Connect
  | Disconnect
  | ResponseEvent response_data
  | ErrorEvent error_data
  | QuickQueriesSettled "fetch_error + quick_query list"
  | InputChange js_string
  | KeyPress js_string bool
  | SendClick
  | QuickQueryClick js_string
  | SuggestionClick js_string

text \<open>The readings of the clock that a handler takes.\<close>

record clock =
  date_now :: int
  new_date :: int

definition step :: "clock \<Rightarrow> event \<Rightarrow> client \<Rightarrow> client" where
  "step c e s =
     (case e of
        Connect \<Rightarrow> on_connect s
      | Disconnect \<Rightarrow> on_disconnect s
      | ResponseEvent data \<Rightarrow> on_response (date_now c) data s
      | ErrorEvent data \<Rightarrow> on_error (date_now c) data s
      | QuickQueriesSettled settled \<Rightarrow>
          (case loadQuickQueries settled s of Inl _ \<Rightarrow> s | Inr s' \<Rightarrow> s')
      | InputChange v \<Rightarrow> (if input_disabled s then s else s\<lparr>inputMessage := v\<rparr>)
      | KeyPress key shiftKey \<Rightarrow>
          (if input_disabled s then s
           else handleKeyPress (date_now c) (new_date c) key shiftKey s)
      | SendClick \<Rightarrow>
          (if send_disabled s then s else sendMessage (date_now c) (new_date c) None s)
      | QuickQueryClick q \<Rightarrow> handleQuickQuery (date_now c) (new_date c) q s
      | SuggestionClick q \<Rightarrow> handleQuickQuery (date_now c) (new_date c) q s)"

fun run :: "client \<Rightarrow> (clock \<times> event) list \<Rightarrow> client" where
  "run s [] = s"
| "run s ((c, e) # es) = run (step c e s) es"

subsection \<open>Grouping the quick queries\<close>

text \<open>
  The accumulator of \<^verbatim>\<open>quickQueries.reduce(..., {})\<close> is an ordinary object.
  Its own properties are kept here in the order of their creation. A read
  \<^verbatim>\<open>acc[k]\<close> of a key that is no own property goes to \<^verbatim>\<open>Object.prototype\<close>,
  whose properties are functions, and the object itself for \<^verbatim>\<open>__proto__\<close>:
  all of them truthy, none of them with a \<^verbatim>\<open>push\<close> method.
\<close>

type_synonym 'v js_object = "(js_string \<times> 'v) list"

datatype js_error = TypeError

datatype 'v property_value = Undefined | OwnValue 'v | InheritedValue

definition Object_prototype_names :: "js_string list" where
  "Object_prototype_names =
     map lit [''constructor'', ''__defineGetter__'', ''__defineSetter__'',
              ''hasOwnProperty'', ''__lookupGetter__'', ''__lookupSetter__'',
              ''isPrototypeOf'', ''propertyIsEnumerable'', ''toString'', ''valueOf'',
              ''__proto__'', ''toLocaleString'']"

definition get_property :: "'v js_object \<Rightarrow> js_string \<Rightarrow> 'v property_value" where
  "get_property obj k =
     (case map_of obj k of
        Some v \<Rightarrow> OwnValue v
      | None \<Rightarrow> if k \<in> set Object_prototype_names then InheritedValue else Undefined)"

text \<open>
  The callback of the \<^verbatim>\<open>reduce\<close>. \<^verbatim>\<open>!acc[query.category]\<close> holds only for
  \<^verbatim>\<open>undefined\<close>: an array is truthy, also when it is empty. The assignment
  creates the property after the existing ones; \<^verbatim>\<open>push\<close> changes the array
  where it is. Calling \<^verbatim>\<open>push\<close> on a value that has none is a
  \<^verbatim>\<open>TypeError\<close>.
\<close>

definition reducer ::
  "quick_query list js_object \<Rightarrow> quick_query \<Rightarrow> js_error + quick_query list js_object" where
  "reducer acc q =
     (let acc1 = (case get_property acc (category q) of
                    Undefined \<Rightarrow> AList.update (category q) [] acc
                  | _ \<Rightarrow> acc)
      in case get_property acc1 (category q) of
           OwnValue bucket \<Rightarrow> Inr (AList.update (category q) (bucket @ [q]) acc1)
         | _ \<Rightarrow> Inl TypeError)"

fun reduce :: "('a \<Rightarrow> 'b \<Rightarrow> js_error + 'a) \<Rightarrow> 'a \<Rightarrow> 'b list \<Rightarrow> js_error + 'a" where
  "reduce f acc [] = Inr acc"
| "reduce f acc (x # xs) = (case f acc x of Inl e \<Rightarrow> Inl e | Inr acc' \<Rightarrow> reduce f acc' xs)"

definition quickQueryCategories :: "quick_query list \<Rightarrow> js_error + quick_query list js_object" where
  "quickQueryCategories qs = reduce reducer [] qs"

text \<open>
  The panel renders \<^verbatim>\<open>Object.entries(quickQueryCategories)\<close>. The own keys of
  an object come in this order: first the array indices (the canonical decimal
  strings of the integers from 0 to \<open>2\<^sup>3\<^sup>2 - 2\<close>) by ascending value, then the
  other strings by creation.
\<close>

definition is_digit :: "16 word \<Rightarrow> bool" where
  "is_digit u \<longleftrightarrow> 0x30 \<le> u \<and> u \<le> 0x39"

definition numeric_value :: "js_string \<Rightarrow> nat" where
  "numeric_value k = foldl (\<lambda>n u. 10 * n + (unat u - 48)) 0 k"

definition is_array_index :: "js_string \<Rightarrow> bool" where
  "is_array_index k \<longleftrightarrow>
     (case k of
        [] \<Rightarrow> False
      | u # us \<Rightarrow>
          list_all is_digit k \<and> (if us = [] then True else u \<noteq> 0x30)
          \<and> numeric_value k \<le> 4294967294)"

definition Object_entries :: "'v js_object \<Rightarrow> (js_string \<times> 'v) list" where
  "Object_entries obj =
     sort_key (\<lambda>p. numeric_value (fst p)) (filter (\<lambda>p. is_array_index (fst p)) obj)
     @ filter (\<lambda>p. \<not> is_array_index (fst p)) obj"

definition rendered_categories ::
  "quick_query list \<Rightarrow> js_error + (js_string \<times> quick_query list) list" where
  "rendered_categories qs =
     (case quickQueryCategories qs of Inl e \<Rightarrow> Inl e | Inr acc \<Rightarrow> Inr (Object_entries acc))"

subsection \<open>Notions of the specification\<close>

text \<open>
  The distinct elements of a list in the order of their first occurrence, and
  the stable grouping of the specification: one bucket for each category, the
  categories in the order in which they are first seen, each bucket holding the
  queries of its category in their order of arrival.
\<close>

fun first_seen :: "'a list \<Rightarrow> 'a list" where
  "first_seen [] = []"
| "first_seen (x # xs) = x # removeAll x (first_seen xs)"

definition stable_grouping :: "quick_query list \<Rightarrow> (js_string \<times> quick_query list) list" where
  "stable_grouping qs =
     map (\<lambda>k. (k, filter (\<lambda>q. category q = k) qs)) (first_seen (map category qs))"

text \<open>
  The payload that the specification expects of every outbound \<^verbatim>\<open>message\<close>
  event of a session.
\<close>

definition session_payload :: "js_string \<Rightarrow> outbound \<Rightarrow> bool" where
  "session_payload sid p \<longleftrightarrow>
     include_metrics p \<and> include_logs p \<and> include_traces p
     \<and> time_range p = lit ''1h'' \<and> session_id p = sid"

definition payloads_ok :: "js_string \<Rightarrow> client \<Rightarrow> bool" where
  "payloads_ok sid s \<longleftrightarrow> sessionId s = sid \<and> list_all (session_payload sid) (emitted s)"

subsection \<open>Concrete inputs\<close>

text \<open>The catalog of Scenario C, and a catalog with a category that is a number.\<close>

definition Q1 :: quick_query where
  "Q1 = \<lparr>query = lit ''Q1'', category = lit ''performance'', description = lit ''d1''\<rparr>"

definition Q2 :: quick_query where
  "Q2 = \<lparr>query = lit ''Q2'', category = lit ''performance'', description = lit ''d2''\<rparr>"

definition Q3 :: quick_query where
  "Q3 = \<lparr>query = lit ''Q3'', category = lit ''monitoring'', description = lit ''d3''\<rparr>"

definition scenario_C :: "quick_query list" where
  "scenario_C = [Q1, Q2, Q3]"

definition numbered_categories :: "quick_query list" where
  "numbered_categories =
     [\<lparr>query = lit ''Q1'', category = lit ''b'', description = lit ''d1''\<rparr>,
      \<lparr>query = lit ''Q2'', category = lit ''1'', description = lit ''d2''\<rparr>]"

text \<open>
  A client that started at time 1000 and is connected, and the same client
  after it has sent a first query and waits for the answer.
\<close>

definition connected :: client where
  "connected = on_connect (initial 1000)"

definition awaiting :: client where
  "awaiting = sendMessage 2000 2000 (Some (lit ''cpu'')) connected"

definition at_time :: "int \<Rightarrow> clock" where
  "at_time t = \<lparr>date_now = t, new_date = t\<rparr>"

text \<open>
  A session with one submission from each origin: the text field and the send
  button, a card of the quick-query panel, a suggestion chip.
\<close>

definition answer :: "js_string \<Rightarrow> response_data" where
  "answer r =
     \<lparr>resp_response = r, resp_timestamp = lit ''2024-01-01T00:00:00Z'',
      resp_metadata = None, resp_suggestions = Some [lit ''Show error logs'']\<rparr>"

definition three_origins :: "(clock \<times> event) list" where
  "three_origins =
     [(at_time 1500, Connect),
      (at_time 2000, InputChange (lit ''cpu usage'')),
      (at_time 2100, SendClick),
      (at_time 2900, ResponseEvent (answer (lit ''CPU at 42%''))),
      (at_time 3500, QuickQueryClick (lit ''Q1'')),
      (at_time 4000, SuggestionClick (lit ''Show error logs''))]"

text \<open>
  Two queries sent from the panel, and their two answers handled within the
  same millisecond.
\<close>

definition same_millisecond :: "(clock \<times> event) list" where
  "same_millisecond =
     [(at_time 1500, Connect),
      (at_time 2000, QuickQueryClick (lit ''Q1'')),
      (at_time 2400, QuickQueryClick (lit ''Q2'')),
      (at_time 3000, ResponseEvent (answer (lit ''CPU at 42%''))),
      (at_time 3000, ResponseEvent (answer (lit ''Memory at 63%'')))]"

section \<open>Properties of the handlers\<close>

subsection \<open>Auxiliary facts\<close>

lemmas handler_defs =
  step_def on_connect_def on_disconnect_def on_response_def on_error_def
  handleKeyPress_def handleQuickQuery_def sendMessage_def message_argument_def
  input_disabled_def send_disabled_def loadQuickQueries_def loadQuickQueries_try_def
  at_time_def answer_def initial_def trim_def isWhiteSpace_def lit_def Let_def

lemma dropWhile_self_Nil: "(\<forall>x\<in>set (dropWhile P xs). P x) \<Longrightarrow> dropWhile P xs = []"
  by (metis hd_dropWhile list.set_sel(1))

text \<open>The trimmed string is empty exactly when every code unit is white space.\<close>

lemma trim_empty_iff: "trim s = [] \<longleftrightarrow> (\<forall>u\<in>set s. isWhiteSpace u)"
proof
  assume "trim s = []"
  then have "\<forall>u\<in>set (dropWhile isWhiteSpace s). isWhiteSpace u"
    by (simp add: trim_def)
  then have "dropWhile isWhiteSpace s = []"
    by (rule dropWhile_self_Nil)
  then show "\<forall>u\<in>set s. isWhiteSpace u"
    by simp
next
  assume "\<forall>u\<in>set s. isWhiteSpace u"
  then have H: "dropWhile isWhiteSpace s = []"
    by simp
  show "trim s = []"
    unfolding trim_def H by simp
qed

lemma sendMessage_rejected:
  "trim (message_argument arg s) = [] \<or> \<not> isConnected s \<Longrightarrow>
   sendMessage now created arg s = s"
  by (simp add: sendMessage_def Let_def)

lemma sendMessage_accepted:
  assumes "trim (message_argument arg s) \<noteq> []" and "isConnected s"
  shows "sendMessage now created arg s =
     s\<lparr>messages := messages s @
          [\<lparr>msg_id = now, msg_type = User, content = message_argument arg s,
            timestamp = DateOfClock created, metadata = None, suggestions = None\<rparr>],
       isLoading := True,
       emitted := emitted s @
          [\<lparr>message = message_argument arg s, session_id = sessionId s,
            include_metrics = True, include_logs = True, include_traces = True,
            time_range = lit ''1h''\<rparr>],
       inputMessage := []\<rparr>"
  using assms by (simp add: sendMessage_def Let_def)

lemma sendMessage_messages:
  "\<exists>new. messages (sendMessage now created arg s) = messages s @ new"
  by (simp add: sendMessage_def Let_def)

lemma loadQuickQueries_returns:
  "\<exists>s'. loadQuickQueries settled s = Inr s' \<and> messages s' = messages s
      \<and> sessionId s' = sessionId s \<and> emitted s' = emitted s"
  by (cases settled) (simp_all add: loadQuickQueries_def loadQuickQueries_try_def)

lemma connected_state: "isConnected connected \<and> \<not> isLoading connected"
  by (simp add: connected_def on_connect_def initial_def)

lemma awaiting_state: "isConnected awaiting \<and> isLoading awaiting"
  by (simp add: awaiting_def connected_def handler_defs)

section \<open>Inbound events\<close>

text \<open>
  C1. Handling a \<^verbatim>\<open>response\<close> event appends exactly one message to the log. It
  has kind assistant, its content is the payload's \<^verbatim>\<open>response\<close>, its metadata
  and suggestions are the payload's optional fields. The messages that were in
  the log stay as they were, in front of it.
\<close>

theorem response_appends_one_assistant_message:
  "\<exists>m. messages (on_response now data s) = messages s @ [m]
     \<and> msg_type m = Assistant
     \<and> content m = resp_response data
     \<and> metadata m = resp_metadata data
     \<and> suggestions m = resp_suggestions data"
  by (simp add: on_response_def)

text \<open>
  C2. Handling an \<^verbatim>\<open>error\<close> event appends exactly one message to the log. It
  has kind error and its content is \<^verbatim>\<open>"Error: "\<close> followed by the payload's
  \<^verbatim>\<open>error\<close>. The messages that were in the log stay as they were, in front of it.
\<close>

theorem error_appends_one_error_message:
  "\<exists>m. messages (on_error now data s) = messages s @ [m]
     \<and> msg_type m = Error
     \<and> content m = lit ''Error: '' @ err_error data"
  by (simp add: on_error_def)

section \<open>Submissions that are not sent\<close>

text \<open>
  C4. When the submitted text is empty or has only white space, \<^verbatim>\<open>sendMessage\<close>
  returns the state it was given: no message is appended and nothing is emitted.
\<close>

theorem blank_submission_changes_nothing:
  assumes "\<forall>u\<in>set (message_argument arg s). isWhiteSpace u"
  shows "sendMessage now created arg s = s"
proof -
  from assms have "trim (message_argument arg s) = []"
    by (simp add: trim_empty_iff)
  then show ?thesis
    by (simp add: sendMessage_rejected)
qed

text \<open>Two blanks, submitted by a connected client.\<close>

theorem blank_submission_changes_nothing_witness:
  "isConnected connected
   \<and> list_all isWhiteSpace (message_argument (Some (lit ''  '')) connected)
   \<and> sendMessage 2000 2000 (Some (lit ''  '')) connected = connected"
proof -
  have h: "\<forall>u\<in>set (message_argument (Some (lit ''  '')) connected). isWhiteSpace u"
    by (simp add: message_argument_def lit_def isWhiteSpace_def)
  from blank_submission_changes_nothing [OF h, of 2000 2000] h connected_state
  show ?thesis
    by (simp add: list_all_iff)
qed

text \<open>
  C5. While the client is disconnected, \<^verbatim>\<open>sendMessage\<close> emits nothing and leaves
  the log as it is, whatever the text.
\<close>

theorem disconnected_submission_changes_nothing:
  assumes "\<not> isConnected s"
  shows "emitted (sendMessage now created arg s) = emitted s
     \<and> messages (sendMessage now created arg s) = messages s"
  using assms by (simp add: sendMessage_rejected)

text \<open>A query submitted before the socket has connected.\<close>

theorem disconnected_submission_changes_nothing_witness:
  "\<not> isConnected (initial 1000)
   \<and> trim (lit ''cpu'') = lit ''cpu''
   \<and> emitted (sendMessage 2000 2000 (Some (lit ''cpu'')) (initial 1000)) = []
   \<and> messages (sendMessage 2000 2000 (Some (lit ''cpu'')) (initial 1000)) = []"
proof -
  have h: "\<not> isConnected (initial 1000)"
    by (simp add: initial_def)
  have t: "trim (lit ''cpu'') = lit ''cpu''"
    by (simp add: trim_def lit_def isWhiteSpace_def)
  have e: "emitted (initial 1000) = [] \<and> messages (initial 1000) = []"
    by (simp add: initial_def)
  from disconnected_submission_changes_nothing [OF h, of 2000 2000 "Some (lit ''cpu'')"] h t e
  show ?thesis
    by simp
qed

section \<open>The pending exchange\<close>

text \<open>
  C8. \<^verbatim>\<open>isLoading\<close> is the state of the pending exchange: false is Idle, true is
  Awaiting Response. A submission of a text that is not empty once it is
  trimmed (it has a code unit that is no white space), by a connected client,
  leaves the client in Awaiting Response; it appends the user message
  and emits the event in whichever of the two states the client was, so also
  when an answer is outstanding. A \<^verbatim>\<open>response\<close> event and an \<^verbatim>\<open>error\<close> event
  each leave the client Idle.
\<close>

theorem pending_exchange:
  assumes "\<exists>u\<in>set (message_argument arg s). \<not> isWhiteSpace u" and "isConnected s"
  shows "isLoading (sendMessage now created arg s)
     \<and> (\<exists>m. messages (sendMessage now created arg s) = messages s @ [m]
            \<and> msg_type m = User \<and> content m = message_argument arg s)
     \<and> (\<exists>p. emitted (sendMessage now created arg s) = emitted s @ [p]
            \<and> message p = message_argument arg s)
     \<and> \<not> isLoading (on_response t rdata s')
     \<and> \<not> isLoading (on_error t edata s')"
proof -
  from assms(1) have "trim (message_argument arg s) \<noteq> []"
    by (simp add: trim_empty_iff)
  then have "sendMessage now created arg s =
     s\<lparr>messages := messages s @
          [\<lparr>msg_id = now, msg_type = User, content = message_argument arg s,
            timestamp = DateOfClock created, metadata = None, suggestions = None\<rparr>],
       isLoading := True,
       emitted := emitted s @
          [\<lparr>message = message_argument arg s, session_id = sessionId s,
            include_metrics = True, include_logs = True, include_traces = True,
            time_range = lit ''1h''\<rparr>],
       inputMessage := []\<rparr>"
    using assms(2) by (rule sendMessage_accepted)
  then show ?thesis
    by (simp add: on_response_def on_error_def)
qed

text \<open>A second query, submitted from the panel while the first one is outstanding.\<close>

theorem pending_exchange_witness:
  "isLoading awaiting \<and> isConnected awaiting
   \<and> \<not> list_all isWhiteSpace (message_argument (Some (lit ''memory'')) awaiting)
   \<and> isLoading (sendMessage 2400 2400 (Some (lit ''memory'')) awaiting)
   \<and> length (messages (sendMessage 2400 2400 (Some (lit ''memory'')) awaiting))
       = Suc (length (messages awaiting))
   \<and> length (emitted (sendMessage 2400 2400 (Some (lit ''memory'')) awaiting))
       = Suc (length (emitted awaiting))
   \<and> \<not> isLoading (on_response 3000 (answer (lit ''CPU at 42%'')) awaiting)
   \<and> \<not> isLoading (on_error 3000
         \<lparr>err_error = lit ''backend timeout'', err_timestamp = lit ''2024-01-01T00:00:01Z''\<rparr>
         awaiting)"
proof -
  have h: "\<exists>u\<in>set (message_argument (Some (lit ''memory'')) awaiting). \<not> isWhiteSpace u"
    by (simp add: message_argument_def lit_def isWhiteSpace_def)
  have c: "isConnected awaiting" and l: "isLoading awaiting"
    using awaiting_state by simp_all
  from pending_exchange [OF h c, of 2400 2400 3000 "answer (lit ''CPU at 42%'')" awaiting
      "\<lparr>err_error = lit ''backend timeout'', err_timestamp = lit ''2024-01-01T00:00:01Z''\<rparr>"]
  have "isLoading (sendMessage 2400 2400 (Some (lit ''memory'')) awaiting)
     \<and> length (messages (sendMessage 2400 2400 (Some (lit ''memory'')) awaiting))
         = Suc (length (messages awaiting))
     \<and> length (emitted (sendMessage 2400 2400 (Some (lit ''memory'')) awaiting))
         = Suc (length (emitted awaiting))
     \<and> \<not> isLoading (on_response 3000 (answer (lit ''CPU at 42%'')) awaiting)
     \<and> \<not> isLoading (on_error 3000
           \<lparr>err_error = lit ''backend timeout'', err_timestamp = lit ''2024-01-01T00:00:01Z''\<rparr>
           awaiting)"
    by auto
  with h c l show ?thesis
    by (simp add: list_all_iff)
qed

section \<open>The quick-query catalog\<close>

text \<open>
  C9. When the request for the quick queries fails, \<^verbatim>\<open>loadQuickQueries\<close>
  returns normally, whatever the failure, and the catalog is the one from
  before: empty in a client that has just started, and the loaded one after a
  load that succeeded.
\<close>

theorem failed_load_keeps_catalog:
  "(\<exists>s'. loadQuickQueries (Inl failure) s = Inr s' \<and> quickQueries s' = quickQueries s)
   \<and> (\<exists>s'. loadQuickQueries (Inl failure) (initial t0) = Inr s' \<and> quickQueries s' = [])
   \<and> (\<exists>s1 s2. loadQuickQueries (Inr data) s = Inr s1
          \<and> loadQuickQueries (Inl failure) s1 = Inr s2 \<and> quickQueries s2 = data)"
  by (simp add: loadQuickQueries_def loadQuickQueries_try_def initial_def)

section \<open>The message log over a session\<close>

lemma step_messages: "\<exists>new. messages (step c e s) = messages s @ new"
proof (cases e)
  case (QuickQueriesSettled settled)
  obtain s' where "loadQuickQueries settled s = Inr s'" "messages s' = messages s"
    using loadQuickQueries_returns by blast
  with QuickQueriesSettled show ?thesis by (simp add: step_def)
next
  case (KeyPress key shiftKey)
  then show ?thesis
    using sendMessage_messages [of "date_now c" "new_date c" None s]
    by (simp add: step_def handleKeyPress_def)
next
  case SendClick
  then show ?thesis
    using sendMessage_messages [of "date_now c" "new_date c" None s]
    by (simp add: step_def)
next
  case (QuickQueryClick q)
  then show ?thesis
    using sendMessage_messages [of "date_now c" "new_date c" "Some q" s]
    by (simp add: step_def handleQuickQuery_def)
next
  case (SuggestionClick q)
  then show ?thesis
    using sendMessage_messages [of "date_now c" "new_date c" "Some q" s]
    by (simp add: step_def handleQuickQuery_def)
qed (simp_all add: step_def on_connect_def on_disconnect_def on_response_def on_error_def)

lemma run_messages: "\<exists>new. messages (run s es) = messages s @ new"
proof (induction es arbitrary: s)
  case Nil
  show ?case by simp
next
  case (Cons ce es)
  obtain c e where ce: "ce = (c, e)" by (cases ce)
  obtain new1 where n1: "messages (step c e s) = messages s @ new1"
    using step_messages by blast
  obtain new2 where n2: "messages (run (step c e s) es) = messages (step c e s) @ new2"
    using Cons.IH by blast
  from ce n1 n2 show ?case by simp
qed

text \<open>
  C6. A submission, a \<^verbatim>\<open>response\<close> event and an \<^verbatim>\<open>error\<close> event each leave the
  log as it was and put the new messages, if any, behind it; so does every
  sequence of events of the component. The messages of the log keep their
  content, their kind and their position.
\<close>

theorem log_is_append_only:
  "(\<exists>new. messages (sendMessage now created arg s) = messages s @ new)
   \<and> (\<exists>new. messages (on_response now rdata s) = messages s @ new)
   \<and> (\<exists>new. messages (on_error now edata s) = messages s @ new)
   \<and> (\<exists>new. messages (run s es) = messages s @ new)"
  by (simp add: sendMessage_messages run_messages on_response_def on_error_def)

text \<open>
  The client that waits for its first answer goes through a session of five
  more events: its one message is still the first of the five in the log.
\<close>

theorem log_is_append_only_witness:
  "length (messages awaiting) = 1
   \<and> length (messages (run awaiting same_millisecond)) = 5
   \<and> take 1 (messages (run awaiting same_millisecond)) = messages awaiting"
proof -
  have before: "length (messages awaiting) = 1"
    by (simp add: awaiting_def connected_def handler_defs)
  have after: "length (messages (run awaiting same_millisecond)) = 5"
    by (simp add: awaiting_def connected_def same_millisecond_def handler_defs)
  from log_is_append_only [where now = 2400 and created = 2400
      and arg = "Some (lit ''memory'')" and s = awaiting
      and rdata = "answer (lit ''CPU at 42%'')"
      and edata = "\<lparr>err_error = lit ''backend timeout'',
                    err_timestamp = lit ''2024-01-01T00:00:01Z''\<rparr>"
      and es = same_millisecond]
  obtain new where "messages (run awaiting same_millisecond) = messages awaiting @ new"
    by blast
  with before after show ?thesis
    by simp
qed

text \<open>
  C7. The identifier of a message is the value of \<^verbatim>\<open>Date.now()\<close> when the
  message is built, and the log is rendered with \<^verbatim>\<open>key={message.id}\<close>. Two
  answers that are handled within one millisecond get the same identifier: in
  the session below the log has four messages, the third and the fourth differ
  and carry the identifier 3000 both.
\<close>

theorem same_millisecond_same_id:
  "map msg_id (messages (run (initial 1000) same_millisecond)) = [2000, 2400, 3000, 3000]
   \<and> map content (messages (run (initial 1000) same_millisecond))
       = [lit ''Q1'', lit ''Q2'', lit ''CPU at 42%'', lit ''Memory at 63%'']
   \<and> \<not> distinct (map msg_id (messages (run (initial 1000) same_millisecond)))"
proof -
  have ids: "map msg_id (messages (run (initial 1000) same_millisecond))
      = [2000, 2400, 3000, 3000]"
    by (simp add: same_millisecond_def handler_defs)
  have texts: "map content (messages (run (initial 1000) same_millisecond))
      = [lit ''Q1'', lit ''Q2'', lit ''CPU at 42%'', lit ''Memory at 63%'']"
    by (simp add: same_millisecond_def handler_defs)
  from ids texts show ?thesis
    by simp
qed

section \<open>Outbound events\<close>

lemma sendMessage_payloads_ok:
  "payloads_ok sid s \<Longrightarrow> payloads_ok sid (sendMessage now created arg s)"
  by (simp add: payloads_ok_def sendMessage_def Let_def session_payload_def)

lemma step_payloads_ok: "payloads_ok sid s \<Longrightarrow> payloads_ok sid (step c e s)"
proof (cases e)
  case (QuickQueriesSettled settled)
  assume ok: "payloads_ok sid s"
  obtain s' where "loadQuickQueries settled s = Inr s'" "sessionId s' = sessionId s"
      "emitted s' = emitted s"
    using loadQuickQueries_returns by blast
  with QuickQueriesSettled ok show ?thesis by (simp add: step_def payloads_ok_def)
qed (simp_all add: step_def handleKeyPress_def handleQuickQuery_def sendMessage_payloads_ok,
     simp_all add: payloads_ok_def on_connect_def on_disconnect_def on_response_def on_error_def)

lemma run_payloads_ok: "payloads_ok sid s \<Longrightarrow> payloads_ok sid (run s es)"
  by (induction es arbitrary: s) (auto simp: step_payloads_ok)

lemma initial_payloads_ok: "payloads_ok (createSessionId t0) (initial t0)"
  by (simp add: payloads_ok_def initial_def)

text \<open>
  C10. In a client that started at time \<open>t0\<close>, after any sequence of events,
  every \<^verbatim>\<open>message\<close> event that was emitted has the three flags set, the time
  range \<^verbatim>\<open>"1h"\<close> and, as session identifier, the one that was made at the
  start. The sequences of events include the submissions from the text field,
  from the quick-query panel and from the suggestion chips.
\<close>

theorem every_emitted_payload:
  "\<forall>p\<in>set (emitted (run (initial t0) es)).
      include_metrics p \<and> include_logs p \<and> include_traces p
      \<and> time_range p = lit ''1h'' \<and> session_id p = createSessionId t0"
proof -
  have "payloads_ok (createSessionId t0) (run (initial t0) es)"
    by (rule run_payloads_ok [OF initial_payloads_ok])
  then show ?thesis
    by (simp add: payloads_ok_def list_all_iff session_payload_def)
qed

text \<open>
  A session with a submission from each origin: three events are emitted, with
  the three texts, and each has the payload of the session.
\<close>

theorem every_emitted_payload_witness:
  "map message (emitted (run (initial 1000) three_origins))
     = [lit ''cpu usage'', lit ''Q1'', lit ''Show error logs'']
   \<and> list_all (\<lambda>p. include_metrics p \<and> include_logs p \<and> include_traces p
          \<and> time_range p = lit ''1h'' \<and> session_id p = createSessionId 1000)
        (emitted (run (initial 1000) three_origins))"
proof -
  have texts: "map message (emitted (run (initial 1000) three_origins))
      = [lit ''cpu usage'', lit ''Q1'', lit ''Show error logs'']"
    by (simp add: three_origins_def handler_defs)
  from every_emitted_payload [of 1000 three_origins] texts show ?thesis
    by (simp add: list_all_iff)
qed

section \<open>Grouping the quick queries by category\<close>

subsection \<open>The accumulator is the stable grouping\<close>

lemma set_first_seen: "set (first_seen xs) = set xs"
  by (induction xs) auto

lemma distinct_first_seen: "distinct (first_seen xs)"
  by (induction xs) (auto simp: distinct_removeAll)

lemma first_seen_snoc:
  "first_seen (xs @ [x]) = (if x \<in> set xs then first_seen xs else first_seen xs @ [x])"
  by (induction xs) (auto simp: set_first_seen)

lemma reduce_snoc:
  "reduce f acc (xs @ [x]) = (case reduce f acc xs of Inl e \<Rightarrow> Inl e | Inr a \<Rightarrow> f a x)"
  by (induction xs arbitrary: acc) (auto split: sum.splits)

lemma update_present:
  "distinct ks \<Longrightarrow> k \<in> set ks \<Longrightarrow>
   AList.update k v (map (\<lambda>k'. (k', f k')) ks) = map (\<lambda>k'. (k', if k' = k then v else f k')) ks"
  by (induction ks) auto

lemma update_absent:
  "k \<notin> fst ` set al \<Longrightarrow> AList.update k v al = al @ [(k, v)]"
  by (induction al) auto

lemma update_last_entry:
  "k \<notin> fst ` set al \<Longrightarrow> AList.update k v (al @ [(k, w)]) = al @ [(k, v)]"
  by (induction al) auto

lemma map_of_tabulate:
  "map_of (map (\<lambda>k. (k, f k)) ks) k = (if k \<in> set ks then Some (f k) else None)"
  by (induction ks) auto

lemma reducer_stable_grouping:
  assumes "category q \<notin> set Object_prototype_names"
  shows "reducer (stable_grouping qs) q = Inr (stable_grouping (qs @ [q]))"
proof (cases "category q \<in> set (map category qs)")
  case True
  let ?ks = "first_seen (map category qs)"
  have own: "get_property (stable_grouping qs) (category q)
      = OwnValue (filter (\<lambda>q'. category q' = category q) qs)"
    using True by (simp add: get_property_def stable_grouping_def map_of_tabulate set_first_seen)
  have "reducer (stable_grouping qs) q
      = Inr (AList.update (category q) (filter (\<lambda>q'. category q' = category q) qs @ [q])
               (stable_grouping qs))"
    by (simp add: reducer_def own)
  also have "AList.update (category q) (filter (\<lambda>q'. category q' = category q) qs @ [q])
               (stable_grouping qs)
      = map (\<lambda>k. (k, if k = category q then filter (\<lambda>q'. category q' = category q) qs @ [q]
                        else filter (\<lambda>q'. category q' = k) qs)) ?ks"
    unfolding stable_grouping_def using True
    by (intro update_present) (simp_all add: distinct_first_seen set_first_seen)
  also have "\<dots> = stable_grouping (qs @ [q])"
    using True by (auto simp: stable_grouping_def first_seen_snoc)
  finally show ?thesis .
next
  case False
  let ?c = "category q"
  have keys: "?c \<notin> fst ` set (stable_grouping qs)"
    using False by (auto simp: stable_grouping_def set_first_seen)
  have undef: "get_property (stable_grouping qs) ?c = Undefined"
    using False assms
    by (simp add: get_property_def stable_grouping_def map_of_tabulate set_first_seen)
  have created: "AList.update ?c [] (stable_grouping qs) = stable_grouping qs @ [(?c, [])]"
    using keys by (rule update_absent)
  have own: "get_property (stable_grouping qs @ [(?c, [])]) ?c = OwnValue []"
    using False
    by (simp add: get_property_def stable_grouping_def map_of_tabulate set_first_seen
        map_add_def split: option.splits)
  have "reducer (stable_grouping qs) q
      = Inr (AList.update ?c [q] (stable_grouping qs @ [(?c, [])]))"
    by (simp add: reducer_def undef created own)
  also have "AList.update ?c [q] (stable_grouping qs @ [(?c, [])]) = stable_grouping qs @ [(?c, [q])]"
    using keys by (rule update_last_entry)
  also have "\<dots> = stable_grouping (qs @ [q])"
  proof -
    have fresh: "\<forall>q'\<in>set qs. category q' \<noteq> ?c"
      using False by (metis imageI set_map)
    then have "filter (\<lambda>q'. category q' = ?c) qs = []"
      by (simp add: filter_empty_conv)
    moreover have "map (\<lambda>k. (k, filter (\<lambda>q'. category q' = k) (qs @ [q]))) (first_seen (map category qs))
        = map (\<lambda>k. (k, filter (\<lambda>q'. category q' = k) qs)) (first_seen (map category qs))"
      using False by (auto simp: set_first_seen)
    ultimately show ?thesis
      using False by (simp add: stable_grouping_def first_seen_snoc)
  qed
  finally show ?thesis .
qed

lemma quickQueryCategories_stable:
  "\<forall>q\<in>set qs. category q \<notin> set Object_prototype_names \<Longrightarrow>
   quickQueryCategories qs = Inr (stable_grouping qs)"
proof (induction qs rule: rev_induct)
  case Nil
  show ?case by (simp add: quickQueryCategories_def stable_grouping_def)
next
  case (snoc q qs)
  then have "quickQueryCategories qs = Inr (stable_grouping qs)"
    and "category q \<notin> set Object_prototype_names"
    by simp_all
  then show ?case
    by (simp add: quickQueryCategories_def reduce_snoc reducer_stable_grouping)
qed

subsection \<open>The order of the rendered categories\<close>

lemma map_fst_insort_key:
  "map fst (insort_key (\<lambda>p. g (fst p)) p ys) = insort_key g (fst p) (map fst ys)"
  by (induction ys) auto

lemma map_fst_sort_key:
  "map fst (sort_key (\<lambda>p. g (fst p)) xs) = sort_key g (map fst xs)"
  by (induction xs) (auto simp: map_fst_insort_key)

lemma map_fst_filter_fst: "map fst (filter (\<lambda>p. P (fst p)) xs) = filter P (map fst xs)"
  by (induction xs) auto

lemma keys_Object_entries:
  "map fst (Object_entries obj)
     = sort_key numeric_value (filter is_array_index (map fst obj))
       @ filter (\<lambda>k. \<not> is_array_index k) (map fst obj)"
  by (simp add: Object_entries_def map_fst_sort_key map_fst_filter_fst [of is_array_index]
      map_fst_filter_fst [of "\<lambda>k. \<not> is_array_index k"])

lemma set_Object_entries: "set (Object_entries obj) = set obj"
  by (auto simp: Object_entries_def)

lemma Object_entries_no_index:
  "\<forall>p\<in>set obj. \<not> is_array_index (fst p) \<Longrightarrow> Object_entries obj = obj"
  by (simp add: Object_entries_def filter_empty_conv)

lemma keys_stable_grouping: "map fst (stable_grouping qs) = first_seen (map category qs)"
  by (simp add: stable_grouping_def comp_def)

lemma scenario_C_own: "list_all (\<lambda>q. category q \<notin> set Object_prototype_names) scenario_C"
  by (simp add: scenario_C_def Q1_def Q2_def Q3_def Object_prototype_names_def lit_def)

lemma scenario_C_no_index: "list_all (\<lambda>q. \<not> is_array_index (category q)) scenario_C"
  by (simp add: scenario_C_def Q1_def Q2_def Q3_def is_array_index_def is_digit_def lit_def)

lemma stable_grouping_scenario_C:
  "stable_grouping scenario_C = [(lit ''performance'', [Q1, Q2]), (lit ''monitoring'', [Q3])]"
  by (simp add: stable_grouping_def scenario_C_def Q1_def Q2_def Q3_def lit_def)

text \<open>
  A category that is the name of a property of \<^verbatim>\<open>Object.prototype\<close> makes the
  callback call \<^verbatim>\<open>push\<close> on that property: the grouping throws.
\<close>

lemma inherited_name_throws:
  "rendered_categories
     [\<lparr>query = lit ''Q1'', category = lit ''toString'', description = lit ''d1''\<rparr>]
   = Inl TypeError"
  by (simp add: rendered_categories_def quickQueryCategories_def reducer_def get_property_def
      Object_prototype_names_def lit_def)

text \<open>
  C3, as the specification states it, fails: with the categories \<^verbatim>\<open>"b"\<close> and
  \<^verbatim>\<open>"1"\<close>, in this order, the panel shows \<^verbatim>\<open>"1"\<close> first.
\<close>

theorem numbered_category_comes_first:
  "rendered_categories numbered_categories
     = Inr [(lit ''1'', [\<lparr>query = lit ''Q2'', category = lit ''1'', description = lit ''d2''\<rparr>]),
            (lit ''b'', [\<lparr>query = lit ''Q1'', category = lit ''b'', description = lit ''d1''\<rparr>])]
   \<and> rendered_categories numbered_categories \<noteq> Inr (stable_grouping numbered_categories)"
  by (simp add: rendered_categories_def quickQueryCategories_def reducer_def get_property_def
      Object_prototype_names_def Object_entries_def is_array_index_def is_digit_def numeric_value_def
      numbered_categories_def stable_grouping_def lit_def)

text \<open>
  C3, amended. When no category is the name of a property of
  \<^verbatim>\<open>Object.prototype\<close>, the grouping returns, each bucket holds the queries of
  its category in their order of arrival, and the categories come in this
  order: those that are array indices by ascending value, then the others in
  the order in which they are first seen. When no category is an array index
  the result is the stable grouping of the specification.
\<close>

theorem grouping_key_order:
  assumes "\<forall>q\<in>set qs. category q \<notin> set Object_prototype_names"
  shows "\<exists>entries. rendered_categories qs = Inr entries
     \<and> map fst entries =
         sort_key numeric_value (filter is_array_index (first_seen (map category qs)))
         @ filter (\<lambda>k. \<not> is_array_index k) (first_seen (map category qs))
     \<and> (\<forall>(k, bucket)\<in>set entries. bucket = filter (\<lambda>q. category q = k) qs)
     \<and> ((\<forall>q\<in>set qs. \<not> is_array_index (category q)) \<longrightarrow> entries = stable_grouping qs)"
proof -
  have acc: "quickQueryCategories qs = Inr (stable_grouping qs)"
    using assms by (rule quickQueryCategories_stable)
  then have r: "rendered_categories qs = Inr (Object_entries (stable_grouping qs))"
    by (simp add: rendered_categories_def)
  have k: "map fst (Object_entries (stable_grouping qs)) =
         sort_key numeric_value (filter is_array_index (first_seen (map category qs)))
         @ filter (\<lambda>k. \<not> is_array_index k) (first_seen (map category qs))"
    by (simp only: keys_Object_entries keys_stable_grouping)
  have b: "\<forall>(k, bucket)\<in>set (Object_entries (stable_grouping qs)).
             bucket = filter (\<lambda>q. category q = k) qs"
    by (auto simp: set_Object_entries stable_grouping_def)
  have n: "(\<forall>q\<in>set qs. \<not> is_array_index (category q)) \<longrightarrow>
             Object_entries (stable_grouping qs) = stable_grouping qs"
  proof
    assume "\<forall>q\<in>set qs. \<not> is_array_index (category q)"
    then have "\<forall>p\<in>set (stable_grouping qs). \<not> is_array_index (fst p)"
      by (auto simp: stable_grouping_def set_first_seen)
    then show "Object_entries (stable_grouping qs) = stable_grouping qs"
      by (rule Object_entries_no_index)
  qed
  from r k b n show ?thesis by blast
qed

text \<open>Scenario C: the two categories in first-seen order, with their queries.\<close>

theorem grouping_key_order_scenario_C:
  "list_all (\<lambda>q. category q \<notin> set Object_prototype_names) scenario_C
   \<and> list_all (\<lambda>q. \<not> is_array_index (category q)) scenario_C
   \<and> rendered_categories scenario_C
       = Inr [(lit ''performance'', [Q1, Q2]), (lit ''monitoring'', [Q3])]"
proof -
  have h1: "\<forall>q\<in>set scenario_C. category q \<notin> set Object_prototype_names"
    using scenario_C_own by (simp add: list_all_iff)
  have h2: "\<forall>q\<in>set scenario_C. \<not> is_array_index (category q)"
    using scenario_C_no_index by (simp add: list_all_iff)
  from grouping_key_order [OF h1] h2
  have "rendered_categories scenario_C = Inr (stable_grouping scenario_C)"
    by auto
  then show ?thesis
    using scenario_C_own scenario_C_no_index by (simp add: stable_grouping_scenario_C)
qed

end
